theory Spec2Isabelle
  imports Complex_Main "HOL-Library.Word"
begin

section \<open>JavaScript values\<close>

text \<open>
  A string is its sequence of UTF-16 code units, so that \<open>length\<close> is the \<open>length\<close>
  property. Field names and error messages are only ever compared, and are kept as
  \<open>string\<close>.
\<close>

type_synonym js_string = "16 word list"

text \<open>
  A number is a double. The validators only compare numbers and take \<open>Math.floor\<close>, both of
  which are exact on doubles, so the finite doubles are read as the reals they denote; the two
  zeros are one value, as they are for \<open>===\<close>, \<open>>\<close> and \<open>>=\<close>.
\<close>

datatype js_number = NaN | PositiveInfinity | NegativeInfinity | Finite real

text \<open>
  A value is a primitive or a reference. A reference is the address of the object together
  with the class the object was created with (array, function, promise, any other object), so
  two references are the same value exactly when they denote the same object. Symbols and
  big integers are left out: no operation below tells them from a plain object.
\<close>

datatype jsvalue =
    JUndefined
  | JNull
  | JBoolean bool
  | JNumber js_number
  | JString js_string
  | JArray nat
  | JFunction nat
  | JPromise nat
  | JObject nat



fun Array_isArray :: "jsvalue \<Rightarrow> bool" where
  "Array_isArray (JArray a) = True"
| "Array_isArray v = False"


subsection \<open>Comparison of numbers\<close>

definition number_equals :: "js_number \<Rightarrow> js_number \<Rightarrow> bool" where
  "number_equals a b = (a \<noteq> NaN \<and> b \<noteq> NaN \<and> a = b)"

fun number_less :: "js_number \<Rightarrow> js_number \<Rightarrow> bool" where
  "number_less NaN b = False"
| "number_less a NaN = False"
| "number_less (Finite x) (Finite y) = (x < y)"
| "number_less NegativeInfinity b = (b \<noteq> NegativeInfinity)"
| "number_less a PositiveInfinity = (a \<noteq> PositiveInfinity)"
| "number_less PositiveInfinity b = False"
| "number_less a NegativeInfinity = False"

text \<open>\<open>a > b\<close> and \<open>a >= b\<close>.\<close>

definition number_greater :: "js_number \<Rightarrow> js_number \<Rightarrow> bool" where
  "number_greater a b = number_less b a"

definition number_greater_equal :: "js_number \<Rightarrow> js_number \<Rightarrow> bool" where
  "number_greater_equal a b = (number_less b a \<or> number_equals a b)"

definition number_less_equal :: "js_number \<Rightarrow> js_number \<Rightarrow> bool" where
  "number_less_equal a b = (number_less a b \<or> number_equals a b)"

fun Math_floor :: "js_number \<Rightarrow> js_number" where
  "Math_floor (Finite x) = Finite (of_int \<lfloor>x\<rfloor>)"
| "Math_floor n = n"

text \<open>\<open>a === b\<close>: \<open>NaN\<close> differs from itself; everything else is compared as a value.\<close>

fun strict_equals :: "jsvalue \<Rightarrow> jsvalue \<Rightarrow> bool" where
  "strict_equals (JNumber a) (JNumber b) = number_equals a b"
| "strict_equals a b = (a = b)"

subsection \<open>Strings\<close>

text \<open>The code units \<open>String.prototype.trim\<close> removes: white space and line terminators.\<close>

definition is_white_space :: "16 word \<Rightarrow> bool" where
  "is_white_space c =
     (c = 0x9 \<or> c = 0xA \<or> c = 0xB \<or> c = 0xC \<or> c = 0xD \<or> c = 0x20 \<or> c = 0xA0
      \<or> c = 0x1680 \<or> (0x2000 \<le> c \<and> c \<le> 0x200A) \<or> c = 0x2028 \<or> c = 0x2029
      \<or> c = 0x202F \<or> c = 0x205F \<or> c = 0x3000 \<or> c = 0xFEFF)"

definition trim :: "js_string \<Rightarrow> js_string" where
  "trim str = rev (dropWhile is_white_space (rev (dropWhile is_white_space str)))"

definition string_length :: "js_string \<Rightarrow> js_number" where
  "string_length str = Finite (of_nat (length str))"

subsection \<open>Objects used as records\<close>

text \<open>
  An object used as a record is the list of its own properties. Reading a property that is
  absent gives \<open>undefined\<close>; assigning one replaces the entry or adds it at the end.
  Property names are field names of a form; the names of the members every object inherits
  (\<open>constructor\<close>, \<open>toString\<close> and the like) are not among them.
\<close>

fun assign :: "(string \<times> 'v) list \<Rightarrow> string \<Rightarrow> 'v \<Rightarrow> (string \<times> 'v) list" where
  "assign [] key v = [(key, v)]"
| "assign ((k, w) # ps) key v = (if k = key then (k, v) # ps else (k, w) # assign ps key v)"

text \<open>
  A form value is an object with an identity: \<open>prevState\<close> and a copy of it with the same
  properties are different objects.
\<close>

record FormValue =
  address :: nat
  properties :: "(string \<times> jsvalue) list"

text \<open>\<open>value[field]\<close>\<close>

definition get_field :: "FormValue \<Rightarrow> string \<Rightarrow> jsvalue" where
  "get_field v field = (case map_of (properties v) field of None \<Rightarrow> JUndefined | Some x \<Rightarrow> x)"

text \<open>
  An error map holds for each key a message or \<open>undefined\<close> (\<open>None\<close>); \<open>errors[name]\<close>
  is \<open>undefined\<close> for an absent key too.
\<close>

type_synonym FieldErrors = "(string \<times> string option) list"

definition get_error :: "FieldErrors \<Rightarrow> string \<Rightarrow> string option" where
  "get_error errs name = (case map_of errs name of None \<Rightarrow> None | Some e \<Rightarrow> e)"

subsection \<open>The parts of the platform the validators call\<close>

text \<open>
  A regular expression is its \<open>test\<close> function on strings (expressions with the global or
  sticky flag, whose \<open>test\<close> depends on earlier calls, are not covered). A parsed URL is
  its protocol.
\<close>

datatype RegExp = RegExp (test: "js_string \<Rightarrow> bool")

datatype URL = URL (protocol: string)

datatype js_error = SyntaxError | TypeError | Error string

text \<open>
  The platform is a parameter of the model:
  \<^item> \<open>array_elements a\<close>: the elements of the array at address \<open>a\<close>;
  \<^item> \<open>new_RegExp s\<close>: the expression compiled from the source \<open>s\<close>, or the error
    the constructor throws;
  \<^item> \<open>mail_RegExp\<close>: the expression the literal in \<open>validMail\<close> denotes;
  \<^item> \<open>new_URL s\<close>: the URL parsed from \<open>s\<close>, or the error the constructor throws;
  \<^item> \<open>promise_then p f\<close>: the promise \<open>p.then(f)\<close> of a promise \<open>p\<close>.
\<close>

record js_runtime =
  array_elements :: "nat \<Rightarrow> jsvalue list"
  new_RegExp :: "js_string \<Rightarrow> js_error + RegExp"
  mail_RegExp :: RegExp
  new_URL :: "js_string \<Rightarrow> js_error + URL"
  promise_then :: "jsvalue \<Rightarrow> (jsvalue \<Rightarrow> jsvalue) \<Rightarrow> jsvalue"

section \<open>Utility predicates\<close>




definition keysOf :: "(string \<times> 'v) list \<Rightarrow> string list" where
  "keysOf object = map fst object"

definition isArray :: "jsvalue \<Rightarrow> bool" where
  "isArray a = Array_isArray a"

section \<open>The validator chain\<close>

record InputFieldValidator =
  error :: string
  validate :: "jsvalue \<Rightarrow> FormValue \<Rightarrow> bool"

datatype InputFormValidator =
    NoopInputFormValidator
  | ChildInputFormValidator string InputFieldValidator InputFormValidator
  | ConditionalInputFormValidator "FormValue \<Rightarrow> bool" InputFormValidator InputFormValidator


fun getValidatedFields :: "InputFormValidator \<Rightarrow> string list" where
  "getValidatedFields NoopInputFormValidator = []"
| "getValidatedFields (ChildInputFormValidator validatedField validator parent) =
     (let validatedFields = getValidatedFields parent
      in if validatedField \<in> set validatedFields then validatedFields
         else validatedFields @ [validatedField])"
| "getValidatedFields (ConditionalInputFormValidator predicate conditionalValidator parent) =
     fold (\<lambda>validatedField validatedFields.
             if validatedField \<notin> set validatedFields then validatedFields @ [validatedField]
             else validatedFields)
          (getValidatedFields conditionalValidator) (getValidatedFields parent)"


subsection \<open>Builder operations\<close>

text \<open>
  Each builder is a method of the chain it extends; that chain is the last argument. A builder
  that can throw returns \<open>Inl\<close> of the error.
\<close>

definition appendFieldValidator ::
  "string \<Rightarrow> InputFieldValidator \<Rightarrow> InputFormValidator \<Rightarrow> InputFormValidator" where
  "appendFieldValidator field validator this = ChildInputFormValidator field validator this"

text \<open>
  The check \<open>typeof fieldValue === 'string'\<close> holds exactly for \<open>JString\<close>, and the
  typed predicate then receives the string.
\<close>

definition appendStringValidator ::
  "string \<Rightarrow> string \<Rightarrow> (js_string \<Rightarrow> FormValue \<Rightarrow> bool) \<Rightarrow> InputFormValidator
   \<Rightarrow> InputFormValidator" where
  "appendStringValidator field message validate_string this =
     appendFieldValidator field
       \<lparr> error = message,
         validate = (\<lambda>fieldValue formValue.
            case fieldValue of JString str \<Rightarrow> validate_string str formValue | _ \<Rightarrow> False) \<rparr>
       this"

definition appendNumberValidator ::
  "string \<Rightarrow> string \<Rightarrow> (js_number \<Rightarrow> FormValue \<Rightarrow> bool) \<Rightarrow> InputFormValidator
   \<Rightarrow> InputFormValidator" where
  "appendNumberValidator field message validate_number this =
     appendFieldValidator field
       \<lparr> error = message,
         validate = (\<lambda>fieldValue formValue.
            case fieldValue of JNumber num \<Rightarrow> validate_number num formValue | _ \<Rightarrow> False) \<rparr>
       this"

definition require ::
  "string \<Rightarrow> string \<Rightarrow> (jsvalue \<Rightarrow> FormValue \<Rightarrow> bool) \<Rightarrow> InputFormValidator
   \<Rightarrow> InputFormValidator" where
  "require field message validate_value this =
     appendFieldValidator field \<lparr> error = message, validate = validate_value \<rparr> this"

definition requireWithNoError ::
  "string \<Rightarrow> (jsvalue \<Rightarrow> FormValue \<Rightarrow> bool) \<Rightarrow> InputFormValidator \<Rightarrow> InputFormValidator" where
  "requireWithNoError field validate_value this =
     appendFieldValidator field \<lparr> error = [], validate = validate_value \<rparr> this"

definition notUndefined :: "string \<Rightarrow> string \<Rightarrow> InputFormValidator \<Rightarrow> InputFormValidator" where
  "notUndefined field message this =
     appendFieldValidator field
       \<lparr> error = message,
         validate = (\<lambda>fieldValue formValue. \<not> strict_equals fieldValue JUndefined) \<rparr>
       this"

definition notUndefinedWithNoError :: "string \<Rightarrow> InputFormValidator \<Rightarrow> InputFormValidator" where
  "notUndefinedWithNoError field this = notUndefined field [] this"

definition notEmpty ::
  "js_runtime \<Rightarrow> string \<Rightarrow> string \<Rightarrow> InputFormValidator \<Rightarrow> InputFormValidator" where
  "notEmpty rt field message this =
     appendFieldValidator field
       \<lparr> error = message,
         validate = (\<lambda>fieldValue formValue.
            isArray fieldValue
            \<and> (case fieldValue of JArray a \<Rightarrow> length (array_elements rt a) > 0 | _ \<Rightarrow> False)) \<rparr>
       this"

definition notBlank :: "string \<Rightarrow> string \<Rightarrow> InputFormValidator \<Rightarrow> InputFormValidator" where
  "notBlank field message this =
     appendStringValidator field message (\<lambda>str formValue. trim str \<noteq> []) this"

definition minLength ::
  "string \<Rightarrow> string \<Rightarrow> js_number \<Rightarrow> InputFormValidator \<Rightarrow> InputFormValidator" where
  "minLength field message minimum this =
     appendStringValidator field message
       (\<lambda>str formValue. number_greater_equal (string_length str) minimum) this"

definition maxLength ::
  "string \<Rightarrow> string \<Rightarrow> js_number \<Rightarrow> InputFormValidator \<Rightarrow> InputFormValidator" where
  "maxLength field message maximum this =
     appendStringValidator field message
       (\<lambda>str formValue. number_less_equal (string_length str) maximum) this"

definition hasLength ::
  "string \<Rightarrow> string \<Rightarrow> js_number \<Rightarrow> InputFormValidator \<Rightarrow> InputFormValidator" where
  "hasLength field message len this =
     appendStringValidator field message
       (\<lambda>str formValue. number_equals (string_length str) len) this"



text \<open>The predicate catches the error of the URL constructor and returns false.\<close>

definition validUrl ::
  "js_runtime \<Rightarrow> string \<Rightarrow> string \<Rightarrow> InputFormValidator \<Rightarrow> InputFormValidator" where
  "validUrl rt field message this =
     appendStringValidator field message
       (\<lambda>str formValue.
          case new_URL rt str of
            Inl e \<Rightarrow> False
          | Inr url \<Rightarrow> protocol url = ''http:'' \<or> protocol url = ''https:'')
       this"

definition notEquals ::
  "string \<Rightarrow> jsvalue \<Rightarrow> string \<Rightarrow> InputFormValidator \<Rightarrow> InputFormValidator" where
  "notEquals field invalidValue message this =
     require field message (\<lambda>fieldValue formValue. \<not> strict_equals fieldValue invalidValue) this"

definition greaterThan ::
  "string \<Rightarrow> js_number \<Rightarrow> string \<Rightarrow> InputFormValidator \<Rightarrow> InputFormValidator" where
  "greaterThan field minimum message this =
     appendNumberValidator field message (\<lambda>num formValue. number_greater num minimum) this"

definition isPositive :: "string \<Rightarrow> string \<Rightarrow> InputFormValidator \<Rightarrow> InputFormValidator" where
  "isPositive field message this = greaterThan field (Finite 0) message this"

definition isInteger :: "string \<Rightarrow> string \<Rightarrow> InputFormValidator \<Rightarrow> InputFormValidator" where
  "isInteger field message this =
     appendNumberValidator field message
       (\<lambda>num formValue. number_equals num (Math_floor num)) this"




section \<open>The field state projection\<close>

text \<open>
  The orchestrator's state, which the two setters given to the projection write to. The
  counter is the address the next object created by an updater gets.
\<close>

record FormStore =
  current_value :: FormValue
  current_touched :: "string list"
  next_address :: nat

text \<open>
  \<open>setFormValue\<close> takes an updater and applies it to the latest value; \<open>setTouchedFields\<close>
  takes the new sequence.
\<close>

definition setFormValue :: "(nat \<Rightarrow> FormValue \<Rightarrow> FormValue) \<Rightarrow> FormStore \<Rightarrow> FormStore" where
  "setFormValue updateFn s =
     s\<lparr> current_value := updateFn (next_address s) (current_value s),
        next_address := Suc (next_address s) \<rparr>"

definition setTouchedFields :: "string list \<Rightarrow> FormStore \<Rightarrow> FormStore" where
  "setTouchedFields newTouched s = s\<lparr> current_touched := newTouched \<rparr>"

text \<open>
  A field accessor is either the object the handler builds for a field name, whose methods
  are closures over the handler and the name, or a mapping adapter around another accessor.
\<close>

datatype InputFormField =
    HandlerField string
  | MappedInputFormField InputFormField "jsvalue \<Rightarrow> jsvalue" "jsvalue \<Rightarrow> jsvalue"

text \<open>
  The handler holds the snapshot it was constructed with and the cache of the accessors built
  so far (its private member \<open>fields\<close>).
\<close>

record InputFormFieldsHandler =
  formValue :: FormValue
  touchedFields :: "string list"
  errors :: FieldErrors
  fields_cache :: "(string \<times> InputFormField) list"

definition createInputFormFields ::
  "FormValue \<Rightarrow> string list \<Rightarrow> FieldErrors \<Rightarrow> InputFormFieldsHandler" where
  "createInputFormFields v touched errs =
     \<lparr> formValue = v, touchedFields = touched, errors = errs, fields_cache = [] \<rparr>"

text \<open>The updater \<open>setValue\<close> hands to \<open>setFormValue\<close>; \<open>fresh\<close> is the address of the copy.\<close>

definition setValue_updater :: "string \<Rightarrow> jsvalue \<Rightarrow> nat \<Rightarrow> FormValue \<Rightarrow> FormValue" where
  "setValue_updater name fieldValue fresh prevState =
     (if strict_equals (get_field prevState name) fieldValue then prevState
      else \<lparr> address = fresh, properties = assign (properties prevState) name fieldValue \<rparr>)"

fun setValue :: "InputFormFieldsHandler \<Rightarrow> InputFormField \<Rightarrow> jsvalue \<Rightarrow> FormStore \<Rightarrow> FormStore" where
  "setValue h (HandlerField name) fieldValue s =
     (let s1 = setFormValue (setValue_updater name fieldValue) s
      in if name \<notin> set (touchedFields h) then setTouchedFields (touchedFields h @ [name]) s1
         else s1)"
| "setValue h (MappedInputFormField delegate mapper inverseMapper) v s =
     setValue h delegate (inverseMapper v) s"


fun markAsTouched :: "InputFormFieldsHandler \<Rightarrow> InputFormField \<Rightarrow> FormStore \<Rightarrow> FormStore" where
  "markAsTouched h (HandlerField name) s =
     (if name \<notin> set (touchedFields h) then setTouchedFields (touchedFields h @ [name]) s
      else s)"
| "markAsTouched h (MappedInputFormField delegate mapper inverseMapper) s =
     markAsTouched h delegate s"

fun isTouched :: "InputFormFieldsHandler \<Rightarrow> InputFormField \<Rightarrow> bool" where
  "isTouched h (HandlerField name) = (name \<in> set (touchedFields h))"
| "isTouched h (MappedInputFormField delegate mapper inverseMapper) = isTouched h delegate"

fun isInvalid :: "InputFormFieldsHandler \<Rightarrow> InputFormField \<Rightarrow> bool" where
  "isInvalid h (HandlerField name) = (get_error (errors h) name \<noteq> None)"
| "isInvalid h (MappedInputFormField delegate mapper inverseMapper) = isInvalid h delegate"

fun isValid :: "InputFormFieldsHandler \<Rightarrow> InputFormField \<Rightarrow> bool" where
  "isValid h (HandlerField name) = (get_error (errors h) name = None)"
| "isValid h (MappedInputFormField delegate mapper inverseMapper) = isValid h delegate"

fun isShowError :: "InputFormFieldsHandler \<Rightarrow> InputFormField \<Rightarrow> bool" where
  "isShowError h (HandlerField name) =
     (name \<in> set (touchedFields h) \<and> get_error (errors h) name \<noteq> None)"
| "isShowError h (MappedInputFormField delegate mapper inverseMapper) = isShowError h delegate"

fun getErrorMessage :: "InputFormFieldsHandler \<Rightarrow> InputFormField \<Rightarrow> string option" where
  "getErrorMessage h (HandlerField name) =
     (if get_error (errors h) name = Some [] then None else get_error (errors h) name)"
| "getErrorMessage h (MappedInputFormField delegate mapper inverseMapper) =
     getErrorMessage h delegate"


text \<open>The form field an accessor reads and writes, through any number of adapters.\<close>

fun field_name :: "InputFormField \<Rightarrow> string" where
  "field_name (HandlerField name) = name"
| "field_name (MappedInputFormField delegate mapper inverseMapper) = field_name delegate"





section \<open>The form state orchestrator\<close>



definition invalid :: "FieldErrors \<Rightarrow> bool" where
  "invalid errs = (find (\<lambda>field. get_error errs field \<noteq> None) (keysOf errs) \<noteq> None)"


section \<open>Notions used to state the properties\<close>

text \<open>A chain built without \<open>when\<close>.\<close>

fun no_when :: "InputFormValidator \<Rightarrow> bool" where
  "no_when NoopInputFormValidator = True"
| "no_when (ChildInputFormValidator validatedField validator parent) = no_when parent"
| "no_when (ConditionalInputFormValidator predicate conditionalValidator parent) = False"

text \<open>The fields of the rules of a chain, one entry per rule, in the order of appending.\<close>

fun appended_fields :: "InputFormValidator \<Rightarrow> string list" where
  "appended_fields NoopInputFormValidator = []"
| "appended_fields (ChildInputFormValidator validatedField validator parent) =
     appended_fields parent @ [validatedField]"
| "appended_fields (ConditionalInputFormValidator predicate conditionalValidator parent) =
     appended_fields parent @ appended_fields conditionalValidator"

text \<open>A list without its repetitions: each element stays where it first occurs.\<close>

fun first_occurrences :: "string list \<Rightarrow> string list" where
  "first_occurrences [] = []"
| "first_occurrences (x # xs) = x # first_occurrences (filter (\<lambda>y. y \<noteq> x) xs)"









section \<open>Association lists\<close>













lemma distinct_fold_add_absent:
  "distinct acc \<Longrightarrow> distinct (fold (\<lambda>x acc. if x \<notin> set acc then acc @ [x] else acc) ys acc)"
  by (induction ys arbitrary: acc) auto

section \<open>Field accessors\<close>

text \<open>A value that differs from the field's current one is stored in a new object.\<close>

lemma setValue_changed_replaces_object:
  assumes "\<not> strict_equals (get_field (current_value s) name) x"
  shows "current_value (setValue h (HandlerField name) x s)
           = \<lparr> address = next_address s,
               properties = assign (properties (current_value s)) name x \<rparr>"
  using assms
  by (simp add: setFormValue_def setTouchedFields_def setValue_updater_def Let_def)

text \<open>
  C1, as the claim states it, fails. The field \<open>name\<close> holds the string \<open>a\<close> and is not
  touched; \<open>setValue\<close> with the same string leaves \<open>name\<close> in the touched sequence.
\<close>

theorem setValue_unchanged_counterexample:
  "strict_equals
     (get_field \<lparr>address = 0, properties = [(''name'', JString [0x61])]\<rparr> ''name'')
     (JString [0x61])
   \<and> current_touched
       (setValue
          (createInputFormFields \<lparr>address = 0, properties = [(''name'', JString [0x61])]\<rparr> [] [])
          (HandlerField ''name'') (JString [0x61])
          \<lparr>current_value = \<lparr>address = 0, properties = [(''name'', JString [0x61])]\<rparr>,
            current_touched = [], next_address = 1\<rparr>)
     = [''name'']"
  by (simp add: get_field_def createInputFormFields_def setFormValue_def setTouchedFields_def)

text \<open>
  C1, amended: \<open>setValue\<close> called on an accessor of the projection with a value strictly
  equal to the field's current value does not replace the form value object (the stored object
  is the previous one, same identity and same properties); the field is still appended to the
  handler's touched sequence when it is not in it, and the touched sequence is left alone
  when it is.
\<close>

theorem setValue_unchanged_keeps_object:
  assumes "strict_equals (get_field (current_value s) name) x"
  shows "current_value (setValue h (HandlerField name) x s) = current_value s
         \<and> current_touched (setValue h (HandlerField name) x s)
             = (if name \<in> set (touchedFields h) then current_touched s
                else touchedFields h @ [name])"
  using assms
  by (simp add: setFormValue_def setTouchedFields_def setValue_updater_def Let_def)

theorem setValue_unchanged_keeps_object_witness:
  "strict_equals
     (get_field (current_value
        \<lparr>current_value = \<lparr>address = 0, properties = [(''name'', JString [0x61])]\<rparr>,
         current_touched = [], next_address = 1\<rparr>) ''name'') (JString [0x61])
   \<and> current_value
       (setValue
          (createInputFormFields \<lparr>address = 0, properties = [(''name'', JString [0x61])]\<rparr>
             [''name''] [])
          (HandlerField ''name'') (JString [0x61])
          \<lparr>current_value = \<lparr>address = 0, properties = [(''name'', JString [0x61])]\<rparr>,
            current_touched = [''name''], next_address = 1\<rparr>)
     = \<lparr>address = 0, properties = [(''name'', JString [0x61])]\<rparr>
   \<and> current_touched
       (setValue
          (createInputFormFields \<lparr>address = 0, properties = [(''name'', JString [0x61])]\<rparr>
             [''name''] [])
          (HandlerField ''name'') (JString [0x61])
          \<lparr>current_value = \<lparr>address = 0, properties = [(''name'', JString [0x61])]\<rparr>,
            current_touched = [''name''], next_address = 1\<rparr>)
     = [''name'']"
  using setValue_unchanged_keeps_object
          [of "\<lparr>current_value = \<lparr>address = 0, properties = [(''name'', JString [0x61])]\<rparr>,
                current_touched = [''name''], next_address = 1\<rparr>" "''name''" "JString [0x61]"
              "createInputFormFields \<lparr>address = 0, properties = [(''name'', JString [0x61])]\<rparr>
                 [''name''] []"]
  by (simp add: get_field_def createInputFormFields_def)

text \<open>
  C8: for every accessor of a field (the handler's accessor or any adapter over it) and every
  error map whose entry for the field is the empty string, \<open>isInvalid\<close> is true,
  \<open>isValid\<close> is false and \<open>getErrorMessage\<close> is \<open>undefined\<close>; when the entry is a
  string that is not empty, \<open>getErrorMessage\<close> is that string.
\<close>

theorem empty_error_counts_as_invalid:
  "(get_error (errors h) (field_name a) = Some [] \<longrightarrow>
      isInvalid h a \<and> \<not> isValid h a \<and> getErrorMessage h a = None)
   \<and> (get_error (errors h) (field_name a) = Some msg \<and> msg \<noteq> [] \<longrightarrow>
      getErrorMessage h a = Some msg)"
  by (induction a) auto

theorem empty_error_counts_as_invalid_witness:
  "get_error (errors (createInputFormFields \<lparr>address = 0, properties = [(''mail'', JNull)]\<rparr> []
                        [(''mail'', Some [])])) (field_name (HandlerField ''mail'')) = Some []
   \<and> isInvalid (createInputFormFields \<lparr>address = 0, properties = [(''mail'', JNull)]\<rparr> []
                  [(''mail'', Some [])]) (HandlerField ''mail'')
   \<and> getErrorMessage (createInputFormFields \<lparr>address = 0, properties = [(''mail'', JNull)]\<rparr> []
                  [(''mail'', Some [])]) (HandlerField ''mail'') = None
   \<and> get_error (errors (createInputFormFields \<lparr>address = 0, properties = [(''mail'', JNull)]\<rparr> []
                        [(''mail'', Some ''Bad'')])) (field_name (HandlerField ''mail'')) = Some ''Bad''
   \<and> getErrorMessage (createInputFormFields \<lparr>address = 0, properties = [(''mail'', JNull)]\<rparr> []
                  [(''mail'', Some ''Bad'')]) (HandlerField ''mail'') = Some ''Bad''"
  using empty_error_counts_as_invalid
          [of "createInputFormFields \<lparr>address = 0, properties = [(''mail'', JNull)]\<rparr> []
                  [(''mail'', Some [])]" "HandlerField ''mail''" "''Bad''"]
        empty_error_counts_as_invalid
          [of "createInputFormFields \<lparr>address = 0, properties = [(''mail'', JNull)]\<rparr> []
                  [(''mail'', Some ''Bad'')]" "HandlerField ''mail''" "''Bad''"]
  by (simp add: createInputFormFields_def get_error_def)

section \<open>The validator chain: error maps and validated fields\<close>

lemmas all_builder_defs =
  appendFieldValidator_def appendStringValidator_def appendNumberValidator_def
  require_def requireWithNoError_def notUndefined_def notUndefinedWithNoError_def
  notEmpty_def notBlank_def minLength_def maxLength_def hasLength_def validUrl_def
  notEquals_def greaterThan_def isPositive_def isInteger_def



lemma distinct_getValidatedFields: "distinct (getValidatedFields c)"
  by (induction c) (auto simp: Let_def distinct_fold_add_absent)















lemma set_first_occurrences: "set (first_occurrences xs) = set xs"
  by (induction xs rule: first_occurrences.induct) auto

lemma distinct_first_occurrences: "distinct (first_occurrences xs)"
  by (induction xs rule: first_occurrences.induct) (auto simp: set_first_occurrences)

lemma first_occurrences_snoc:
  "first_occurrences (xs @ [x])
     = (if x \<in> set xs then first_occurrences xs else first_occurrences xs @ [x])"
  by (induction xs rule: first_occurrences.induct) auto

text \<open>
  C6: for every chain built without \<open>when\<close>, \<open>getValidatedFields\<close> holds each
  targeted field once, and the fields stand in the order in which a rule was first appended
  for them. For a field rule node the result is the parent's list when that list already has
  the node's field (no duplicate), and the parent's list followed by the node's field
  otherwise.
\<close>

theorem validated_fields_in_first_append_order:
  assumes "no_when c"
  shows "distinct (getValidatedFields c)
         \<and> getValidatedFields c = first_occurrences (appended_fields c)
         \<and> getValidatedFields (ChildInputFormValidator field rule c)
             = (if field \<in> set (getValidatedFields c) then getValidatedFields c
                else getValidatedFields c @ [field])"
proof -
  from assms have "getValidatedFields c = first_occurrences (appended_fields c)"
  proof (induction c)
    case NoopInputFormValidator
    show ?case by simp
  next
    case (ChildInputFormValidator f r p)
    then have "getValidatedFields p = first_occurrences (appended_fields p)" by simp
    then show ?case
      by (simp add: Let_def first_occurrences_snoc set_first_occurrences)
  next
    case (ConditionalInputFormValidator q s p)
    then show ?case by simp
  qed
  then show ?thesis
    by (simp add: distinct_first_occurrences Let_def)
qed

theorem validated_fields_in_first_append_order_witness:
  "no_when (notBlank ''b'' ''B2'' (notBlank ''a'' ''A'' (notBlank ''b'' ''B1'' NoopInputFormValidator)))
   \<and> appended_fields
        (notBlank ''b'' ''B2'' (notBlank ''a'' ''A'' (notBlank ''b'' ''B1'' NoopInputFormValidator)))
      = [''b'', ''a'', ''b'']
   \<and> getValidatedFields
        (notBlank ''b'' ''B2'' (notBlank ''a'' ''A'' (notBlank ''b'' ''B1'' NoopInputFormValidator)))
      = [''b'', ''a'']"
proof -
  let ?c = "notBlank ''b'' ''B2'' (notBlank ''a'' ''A'' (notBlank ''b'' ''B1'' NoopInputFormValidator))"
  have n: "no_when ?c"
    by (simp add: all_builder_defs)
  have a: "appended_fields ?c = [''b'', ''a'', ''b'']"
    by (simp add: all_builder_defs)
  from validated_fields_in_first_append_order [OF n] n a show ?thesis
    by simp
qed

section \<open>The orchestrator's valid value\<close>



section \<open>The accessor cache and the mapping adapter\<close>
















section \<open>Built-in rules and builder failures\<close>



lemma not_array_case: "\<not> isArray x \<Longrightarrow> (case x of JArray a \<Rightarrow> P a | _ \<Rightarrow> False) = False"
  by (cases x) (auto simp: isArray_def)











end
